theory Spec2Isabelle
  imports Complex_Main
begin

section \<open>Dynamic Viz: the request model and the generation engine\<close>

text \<open>
  A shallow embedding of \<^verbatim>\<open>src/dynamic_viz/config.py\<close> and
  \<^verbatim>\<open>src/dynamic_viz/core.py\<close>. A Python dictionary is an association list in
  insertion order, a Python value that can sit in a data record or in a
  specification document is a tree of type \<open>json\<close>, an exception is the left
  summand of a sum type, and the engine's history list is threaded explicitly.
\<close>

subsection \<open>Python values\<close>

text \<open>
  Python's \<^verbatim>\<open>float\<close> is kept abstract as the type parameter \<open>'f\<close>: the only float
  operation of the program is the subtraction \<^verbatim>\<open>100 - value\<close> of the gauge rule, and
  it is passed to the model as the parameter \<open>float_rsub\<close>. Nothing is assumed about
  its rounding.
\<close>

datatype 'f json =
    JNull
  | JBool bool
  | JInt int
  | JFloat 'f
  | JStr string
  | JArr "'f json list"
  | JObj "(string \<times> 'f json) list"

datatype error = TypeError

text \<open>\<^verbatim>\<open>d[k] = v\<close>: an existing key keeps its position, a new key goes last.\<close>

fun dict_set :: "string \<Rightarrow> 'v \<Rightarrow> (string \<times> 'v) list \<Rightarrow> (string \<times> 'v) list" where
  "dict_set k v [] = [(k, v)]"
| "dict_set k v ((k', v') # kvs) =
     (if k' = k then (k, v) # kvs else (k', v') # dict_set k v kvs)"

text \<open>\<^verbatim>\<open>d.get(k, default)\<close>.\<close>

definition dict_get :: "(string \<times> 'v) list \<Rightarrow> string \<Rightarrow> 'v \<Rightarrow> 'v" where
  "dict_get d k dflt = (case map_of d k of Some v \<Rightarrow> v | None \<Rightarrow> dflt)"

text \<open>
  \<^verbatim>\<open>field or default\<close> for an optional string: \<^verbatim>\<open>None\<close> and the empty string are
  both falsy, so both give the default.
\<close>

fun or_default :: "string option \<Rightarrow> string \<Rightarrow> string" where
  "or_default None d = d"
| "or_default (Some s) d = (if s = [] then d else s)"

text \<open>
  \<^verbatim>\<open>m - value\<close> for an int \<open>m\<close>: ints subtract exactly, \<^verbatim>\<open>bool\<close> is a subclass of
  \<^verbatim>\<open>int\<close>, a float goes through the float subtraction, and every other operand
  raises \<^verbatim>\<open>TypeError\<close>.
\<close>

fun py_rsub :: "(int \<Rightarrow> 'f \<Rightarrow> 'f) \<Rightarrow> int \<Rightarrow> 'f json \<Rightarrow> error + 'f json" where
  "py_rsub float_rsub m (JInt v) = Inr (JInt (m - v))"
| "py_rsub float_rsub m (JBool b) = Inr (JInt (m - (if b then 1 else 0)))"
| "py_rsub float_rsub m (JFloat x) = Inr (JFloat (float_rsub m x))"
| "py_rsub float_rsub m JNull = Inl TypeError"
| "py_rsub float_rsub m (JStr s) = Inl TypeError"
| "py_rsub float_rsub m (JArr xs) = Inl TypeError"
| "py_rsub float_rsub m (JObj kvs) = Inl TypeError"

subsection \<open>Branding (config.py)\<close>

definition BRAND :: "(string \<times> string) list" where
  "BRAND =
    [(''cyan'', ''#00F5FF''),
     (''magenta'', ''#E000FF''),
     (''purple'', ''#7B2CFF''),
     (''green'', ''#5BFF8A''),
     (''orange'', ''#FF7A2F''),
     (''bg_dark'', ''#111827''),
     (''text'', ''#e2e8f0''),
     (''text_muted'', ''#94a3b8'')]"

text \<open>\<^verbatim>\<open>BRAND[k]\<close>; every key the program uses is a literal present in the table.\<close>

definition brand :: "string \<Rightarrow> string" where
  "brand k = the (map_of BRAND k)"

definition BRAND_PALETTE :: "string list" where
  "BRAND_PALETTE =
    [brand ''cyan'', brand ''magenta'', brand ''purple'', brand ''green'', brand ''orange'']"

subsection \<open>VizRequest\<close>

definition CHART_TYPES :: "string list" where
  "CHART_TYPES =
    [''bar'', ''line'', ''scatter'', ''pie'', ''heatmap'', ''gauge'', ''funnel'',
     ''radial'', ''timeline'']"

record 'f VizRequest =
  title :: string
  chart_type :: string
  data :: "(string \<times> 'f json) list list"
  x_field :: "string option"
  y_field :: "string option"
  color_field :: "string option"
  description :: string
  insight :: string
  created_at :: string

text \<open>
  \<^verbatim>\<open>VizRequest.__init__\<close>. The last argument is the clock reading
  \<^verbatim>\<open>datetime.now().isoformat()\<close>.
\<close>

definition VizRequest_init ::
  "string \<Rightarrow> string \<Rightarrow> (string \<times> 'f json) list list \<Rightarrow> string option \<Rightarrow> string option \<Rightarrow>
   string option \<Rightarrow> string \<Rightarrow> string \<Rightarrow> string \<Rightarrow> 'f VizRequest" where
  "VizRequest_init t ct d xf yf cf de ins now =
     \<lparr> title = t,
       chart_type = (if ct \<in> set CHART_TYPES then ct else ''bar''),
       data = d,
       x_field = xf,
       y_field = yf,
       color_field = cf,
       description = de,
       insight = ins,
       created_at = now \<rparr>"

definition opt_str :: "string option \<Rightarrow> 'f json" where
  "opt_str s = (case s of None \<Rightarrow> JNull | Some x \<Rightarrow> JStr x)"

definition to_dict :: "'f VizRequest \<Rightarrow> 'f json" where
  "to_dict r =
     JObj [(''title'', JStr (title r)),
           (''chart_type'', JStr (chart_type r)),
           (''data'', JArr (map JObj (data r))),
           (''x_field'', opt_str (x_field r)),
           (''y_field'', opt_str (y_field r)),
           (''color_field'', opt_str (color_field r)),
           (''description'', JStr (description r)),
           (''insight'', JStr (insight r)),
           (''created_at'', JStr (created_at r))]"

subsection \<open>The base document and the nine rules\<close>

definition base_spec :: "'f VizRequest \<Rightarrow> (string \<times> 'f json) list" where
  "base_spec request =
     [(''$schema'', JStr ''https://vega.github.io/schema/vega-lite/v5.json''),
      (''title'', JObj
         [(''text'', JStr (title request)),
          (''color'', JStr (brand ''text'')),
          (''anchor'', JStr ''start''),
          (''fontSize'', JInt 16),
          (''subtitle'', (if insight request \<noteq> [] then JStr (insight request) else JNull)),
          (''subtitleColor'', JStr (brand ''text_muted''))]),
      (''width'', JInt 400),
      (''height'', JInt 250),
      (''data'', JObj [(''values'', JArr (map JObj (data request)))]),
      (''config'', JObj
         [(''background'', JStr (brand ''bg_dark'')),
          (''view'', JObj [(''stroke'', JNull)]),
          (''axis'', JObj
             [(''labelColor'', JStr (brand ''text_muted'')),
              (''titleColor'', JStr (brand ''text'')),
              (''gridColor'', JStr ''#374151'')]),
          (''legend'', JObj
             [(''labelColor'', JStr (brand ''text_muted'')),
              (''titleColor'', JStr (brand ''text''))])])]"

definition gen_bar :: "'f VizRequest \<Rightarrow> error + 'f json" where
  "gen_bar request =
     (let spec = base_spec request;
          spec = dict_set ''mark'' (JObj [(''type'', JStr ''bar''), (''cornerRadiusEnd'', JInt 4)]) spec;
          spec = dict_set ''encoding'' (JObj
            [(''x'', JObj [(''field'', JStr (or_default (x_field request) ''category'')),
                          (''type'', JStr ''nominal''), (''title'', JNull)]),
             (''y'', JObj [(''field'', JStr (or_default (y_field request) ''value'')),
                          (''type'', JStr ''quantitative'')]),
             (''color'', JObj
                [(''field'', JStr (or_default (color_field request)
                                     (or_default (x_field request) ''category''))),
                 (''type'', JStr ''nominal''),
                 (''scale'', JObj [(''range'', JArr (map JStr BRAND_PALETTE))]),
                 (''legend'', JNull)]),
             (''tooltip'', JArr
                [JObj [(''field'', JStr (or_default (x_field request) ''category''))],
                 JObj [(''field'', JStr (or_default (y_field request) ''value''))]])]) spec
      in Inr (JObj spec))"

definition gen_line :: "'f VizRequest \<Rightarrow> error + 'f json" where
  "gen_line request =
     (let spec = base_spec request;
          spec = dict_set ''mark'' (JObj [(''type'', JStr ''line''), (''strokeWidth'', JInt 3),
                                         (''point'', JBool True)]) spec;
          spec = dict_set ''encoding'' (JObj
            [(''x'', JObj [(''field'', JStr (or_default (x_field request) ''date'')),
                          (''type'', JStr ''temporal''), (''title'', JNull)]),
             (''y'', JObj [(''field'', JStr (or_default (y_field request) ''value'')),
                          (''type'', JStr ''quantitative'')]),
             (''color'', JObj [(''value'', JStr (brand ''cyan''))]),
             (''tooltip'', JArr
                [JObj [(''field'', JStr (or_default (x_field request) ''date''))],
                 JObj [(''field'', JStr (or_default (y_field request) ''value''))]])]) spec
      in Inr (JObj spec))"

definition gen_scatter :: "'f VizRequest \<Rightarrow> error + 'f json" where
  "gen_scatter request =
     (let spec = base_spec request;
          spec = dict_set ''mark'' (JObj [(''type'', JStr ''circle''), (''size'', JInt 80)]) spec;
          spec = dict_set ''encoding'' (JObj
            [(''x'', JObj [(''field'', JStr (or_default (x_field request) ''x'')),
                          (''type'', JStr ''quantitative'')]),
             (''y'', JObj [(''field'', JStr (or_default (y_field request) ''y'')),
                          (''type'', JStr ''quantitative'')]),
             (''color'', JObj
                [(''field'', JStr (or_default (color_field request) ''category'')),
                 (''type'', JStr ''nominal''),
                 (''scale'', JObj [(''range'', JArr (map JStr BRAND_PALETTE))])]),
             (''tooltip'', JArr
                [JObj [(''field'', JStr (or_default (x_field request) ''x''))],
                 JObj [(''field'', JStr (or_default (y_field request) ''y''))]])]) spec
      in Inr (JObj spec))"

definition gen_pie :: "'f VizRequest \<Rightarrow> error + 'f json" where
  "gen_pie request =
     (let spec = base_spec request;
          spec = dict_set ''mark'' (JObj [(''type'', JStr ''arc''), (''innerRadius'', JInt 50)]) spec;
          spec = dict_set ''encoding'' (JObj
            [(''theta'', JObj [(''field'', JStr (or_default (y_field request) ''value'')),
                              (''type'', JStr ''quantitative'')]),
             (''color'', JObj
                [(''field'', JStr (or_default (x_field request) ''category'')),
                 (''type'', JStr ''nominal''),
                 (''scale'', JObj [(''range'', JArr (map JStr BRAND_PALETTE))])]),
             (''tooltip'', JArr
                [JObj [(''field'', JStr (or_default (x_field request) ''category''))],
                 JObj [(''field'', JStr (or_default (y_field request) ''value''))]])]) spec
      in Inr (JObj spec))"

text \<open>
  The gauge rule reads the first record only. \<^verbatim>\<open>request.data[0].get(key, 50)\<close> is
  guarded by the truthiness of \<^verbatim>\<open>request.data\<close>; the subtraction
  \<^verbatim>\<open>max_val - value\<close> is the one place of the engine that can raise.
\<close>

definition gauge_value :: "'f VizRequest \<Rightarrow> 'f json" where
  "gauge_value request =
     (case data request of
        [] \<Rightarrow> JInt 50
      | d0 # _ \<Rightarrow> dict_get d0 (or_default (y_field request) ''value'') (JInt 50))"

definition gen_gauge :: "(int \<Rightarrow> 'f \<Rightarrow> 'f) \<Rightarrow> 'f VizRequest \<Rightarrow> error + 'f json" where
  "gen_gauge float_rsub request =
     (let v = gauge_value request;
          max_val = 100
      in case py_rsub float_rsub max_val v of
           Inl e \<Rightarrow> Inl e
         | Inr remaining \<Rightarrow>
            (let gauge_data =
                   [JObj [(''segment'', JStr ''Value''), (''value'', v)],
                    JObj [(''segment'', JStr ''Remaining''), (''value'', remaining)]];
                 spec = base_spec request;
                 spec = dict_set ''data'' (JObj [(''values'', JArr gauge_data)]) spec;
                 spec = dict_set ''mark'' (JObj [(''type'', JStr ''arc''), (''innerRadius'', JInt 60),
                                                (''outerRadius'', JInt 100)]) spec;
                 spec = dict_set ''encoding'' (JObj
                   [(''theta'', JObj [(''field'', JStr ''value''), (''type'', JStr ''quantitative''),
                                     (''stack'', JBool True)]),
                    (''color'', JObj
                       [(''field'', JStr ''segment''),
                        (''type'', JStr ''nominal''),
                        (''scale'', JObj
                           [(''domain'', JArr [JStr ''Value'', JStr ''Remaining'']),
                            (''range'', JArr [JStr (brand ''cyan''), JStr ''#1e293b''])]),
                        (''legend'', JNull)])]) spec;
                 spec = dict_set ''width'' (JInt 200) spec;
                 spec = dict_set ''height'' (JInt 200) spec
             in Inr (JObj spec)))"

definition gen_funnel :: "'f VizRequest \<Rightarrow> error + 'f json" where
  "gen_funnel request =
     (let spec = base_spec request;
          spec = dict_set ''mark'' (JObj [(''type'', JStr ''bar''), (''cornerRadiusEnd'', JInt 4)]) spec;
          spec = dict_set ''encoding'' (JObj
            [(''y'', JObj [(''field'', JStr (or_default (x_field request) ''stage'')),
                          (''type'', JStr ''ordinal''), (''sort'', JNull), (''title'', JNull)]),
             (''x'', JObj [(''field'', JStr (or_default (y_field request) ''value'')),
                          (''type'', JStr ''quantitative'')]),
             (''color'', JObj
                [(''field'', JStr (or_default (x_field request) ''stage'')),
                 (''type'', JStr ''nominal''),
                 (''scale'', JObj [(''range'', JArr (map JStr BRAND_PALETTE))]),
                 (''legend'', JNull)])]) spec
      in Inr (JObj spec))"

definition gen_heatmap :: "'f VizRequest \<Rightarrow> error + 'f json" where
  "gen_heatmap request =
     (let spec = base_spec request;
          spec = dict_set ''mark'' (JStr ''rect'') spec;
          spec = dict_set ''encoding'' (JObj
            [(''x'', JObj [(''field'', JStr (or_default (x_field request) ''x'')),
                          (''type'', JStr ''ordinal'')]),
             (''y'', JObj [(''field'', JStr (or_default (y_field request) ''y'')),
                          (''type'', JStr ''ordinal'')]),
             (''color'', JObj
                [(''field'', JStr (or_default (color_field request) ''value'')),
                 (''type'', JStr ''quantitative''),
                 (''scale'', JObj [(''range'', JArr [JStr (brand ''purple''),
                                                    JStr (brand ''cyan'')])])])]) spec
      in Inr (JObj spec))"

definition gen_radial :: "'f VizRequest \<Rightarrow> error + 'f json" where
  "gen_radial request =
     (let spec = base_spec request;
          spec = dict_set ''mark'' (JObj [(''type'', JStr ''arc''), (''innerRadius'', JInt 30)]) spec;
          spec = dict_set ''encoding'' (JObj
            [(''theta'', JObj [(''field'', JStr (or_default (y_field request) ''value'')),
                              (''type'', JStr ''quantitative''), (''stack'', JBool True)]),
             (''color'', JObj
                [(''field'', JStr (or_default (x_field request) ''category'')),
                 (''type'', JStr ''nominal''),
                 (''scale'', JObj [(''range'', JArr (map JStr BRAND_PALETTE))])])]) spec
      in Inr (JObj spec))"

definition gen_timeline :: "'f VizRequest \<Rightarrow> error + 'f json" where
  "gen_timeline request =
     (let spec = base_spec request;
          spec = dict_set ''mark'' (JObj [(''type'', JStr ''circle''), (''size'', JInt 100)]) spec;
          spec = dict_set ''encoding'' (JObj
            [(''x'', JObj [(''field'', JStr (or_default (x_field request) ''date'')),
                          (''type'', JStr ''temporal'')]),
             (''y'', JObj [(''value'', JInt 0)]),
             (''color'', JObj
                [(''field'', JStr (or_default (color_field request) ''category'')),
                 (''type'', JStr ''nominal''),
                 (''scale'', JObj [(''range'', JArr (map JStr BRAND_PALETTE))])]),
             (''tooltip'', JArr
                [JObj [(''field'', JStr (or_default (x_field request) ''date''))],
                 JObj [(''field'', JStr ''event''), (''type'', JStr ''nominal'')]])]) spec;
          spec = dict_set ''height'' (JInt 80) spec
      in Inr (JObj spec))"

subsection \<open>DynamicVizEngine\<close>

record 'f DynamicVizEngine =
  generated_charts :: "'f json list"

definition DynamicVizEngine_init :: "'f DynamicVizEngine" where
  "DynamicVizEngine_init = \<lparr> generated_charts = [] \<rparr>"

text \<open>The dispatch table of \<^verbatim>\<open>generate\<close>, in the order the source lists it.\<close>

definition generators ::
  "(int \<Rightarrow> 'f \<Rightarrow> 'f) \<Rightarrow> (string \<times> ('f VizRequest \<Rightarrow> error + 'f json)) list" where
  "generators float_rsub =
     [(''bar'', gen_bar),
      (''line'', gen_line),
      (''scatter'', gen_scatter),
      (''pie'', gen_pie),
      (''gauge'', gen_gauge float_rsub),
      (''funnel'', gen_funnel),
      (''heatmap'', gen_heatmap),
      (''radial'', gen_radial),
      (''timeline'', gen_timeline)]"

text \<open>\<^verbatim>\<open>generators.get(request.chart_type, self._gen_bar)(request)\<close>.\<close>

definition run_generator :: "(int \<Rightarrow> 'f \<Rightarrow> 'f) \<Rightarrow> 'f VizRequest \<Rightarrow> error + 'f json" where
  "run_generator float_rsub request =
     (dict_get (generators float_rsub) (chart_type request) gen_bar) request"

definition history_entry :: "'f VizRequest \<Rightarrow> 'f json \<Rightarrow> 'f json" where
  "history_entry request spec = JObj [(''request'', to_dict request), (''spec'', spec)]"

text \<open>
  \<^verbatim>\<open>generate\<close> returns the rule's result together with the engine afterwards. An
  exception of the rule propagates before the append, so the engine is unchanged.
\<close>

definition generate ::
  "(int \<Rightarrow> 'f \<Rightarrow> 'f) \<Rightarrow> 'f DynamicVizEngine \<Rightarrow> 'f VizRequest \<Rightarrow>
   (error + 'f json) \<times> 'f DynamicVizEngine" where
  "generate float_rsub eng request =
     (case run_generator float_rsub request of
        Inl e \<Rightarrow> (Inl e, eng)
      | Inr spec \<Rightarrow>
          (Inr spec,
           eng\<lparr>generated_charts := generated_charts eng @ [history_entry request spec]\<rparr>))"

text \<open>\<^verbatim>\<open>AIVizAssistant.get_chart_history\<close> returns the engine's list.\<close>

record 'f AIVizAssistant =
  engine :: "'f DynamicVizEngine"

definition get_chart_history :: "'f AIVizAssistant \<Rightarrow> 'f json list" where
  "get_chart_history a = generated_charts (engine a)"

text \<open>
  A caller that issues one \<^verbatim>\<open>generate\<close> call per request on the same engine, going on
  after a call that raised.
\<close>

fun generate_all ::
  "(int \<Rightarrow> 'f \<Rightarrow> 'f) \<Rightarrow> 'f DynamicVizEngine \<Rightarrow> 'f VizRequest list \<Rightarrow> 'f DynamicVizEngine" where
  "generate_all float_rsub eng [] = eng"
| "generate_all float_rsub eng (r # rs) =
     generate_all float_rsub (snd (generate float_rsub eng r)) rs"

subsection \<open>Reading a document\<close>

fun get_key :: "string \<Rightarrow> 'f json \<Rightarrow> 'f json option" where
  "get_key k (JObj kvs) = map_of kvs k"
| "get_key k _ = None"

fun get_path :: "string list \<Rightarrow> 'f json \<Rightarrow> 'f json option" where
  "get_path [] j = Some j"
| "get_path (k # ks) j = (case get_key k j of None \<Rightarrow> None | Some j' \<Rightarrow> get_path ks j')"

text \<open>Reading the outcome of a call: a path of a raised exception is \<open>None\<close>.\<close>

definition result_path :: "string list \<Rightarrow> error + 'f json \<Rightarrow> 'f json option" where
  "result_path ks res = (case res of Inl e \<Rightarrow> None | Inr doc \<Rightarrow> get_path ks doc)"

definition returns :: "error + 'a \<Rightarrow> bool" where
  "returns res = (case res of Inl e \<Rightarrow> False | Inr doc \<Rightarrow> True)"

text \<open>The Python numbers among the values: \<^verbatim>\<open>int\<close>, \<^verbatim>\<open>float\<close> and \<^verbatim>\<open>bool\<close>.\<close>

fun py_number :: "'f json \<Rightarrow> bool" where
  "py_number (JInt v) = True"
| "py_number (JFloat x) = True"
| "py_number (JBool b) = True"
| "py_number j = False"

text \<open>The float subtraction used in the closed examples: exact, over the rationals.\<close>

definition exact_rsub :: "int \<Rightarrow> rat \<Rightarrow> rat" where
  "exact_rsub m x = of_int m - x"

subsection \<open>What the claims speak about\<close>

text \<open>The record a call leaves in the history: none when the rule raised.\<close>

definition recorded :: "(int \<Rightarrow> 'f \<Rightarrow> 'f) \<Rightarrow> 'f VizRequest \<Rightarrow> 'f json list" where
  "recorded float_rsub request =
     (case fst (generate float_rsub DynamicVizEngine_init request) of
        Inl e \<Rightarrow> []
      | Inr spec \<Rightarrow> [history_entry request spec])"

text \<open>
  The default field names of the specification's table of rules (section 4.4), written
  from the specification's words: the kind, the place of the field name in the document,
  the request field that overrides it, and the default.
\<close>

datatype field_ref = XField | YField | ColorField

fun field_of :: "field_ref \<Rightarrow> 'f VizRequest \<Rightarrow> string option" where
  "field_of XField r = x_field r"
| "field_of YField r = y_field r"
| "field_of ColorField r = color_field r"

definition spec_default_fields :: "(string \<times> string list \<times> field_ref \<times> string) list" where
  "spec_default_fields =
    [(''bar'', [''encoding'', ''x'', ''field''], XField, ''category''),
     (''bar'', [''encoding'', ''y'', ''field''], YField, ''value''),
     (''line'', [''encoding'', ''x'', ''field''], XField, ''date''),
     (''line'', [''encoding'', ''y'', ''field''], YField, ''value''),
     (''scatter'', [''encoding'', ''x'', ''field''], XField, ''x''),
     (''scatter'', [''encoding'', ''y'', ''field''], YField, ''y''),
     (''scatter'', [''encoding'', ''color'', ''field''], ColorField, ''category''),
     (''pie'', [''encoding'', ''color'', ''field''], XField, ''category''),
     (''pie'', [''encoding'', ''theta'', ''field''], YField, ''value''),
     (''funnel'', [''encoding'', ''y'', ''field''], XField, ''stage''),
     (''funnel'', [''encoding'', ''x'', ''field''], YField, ''value''),
     (''heatmap'', [''encoding'', ''x'', ''field''], XField, ''x''),
     (''heatmap'', [''encoding'', ''y'', ''field''], YField, ''y''),
     (''heatmap'', [''encoding'', ''color'', ''field''], ColorField, ''value''),
     (''radial'', [''encoding'', ''color'', ''field''], XField, ''category''),
     (''radial'', [''encoding'', ''theta'', ''field''], YField, ''value''),
     (''timeline'', [''encoding'', ''x'', ''field''], XField, ''date''),
     (''timeline'', [''encoding'', ''color'', ''field''], ColorField, ''category'')]"

text \<open>
  The colour literals of a document: the strings stored under a colour-valued property of
  the chart grammar (directly, or as the elements of a list stored there), the \<open>value\<close>
  of a \<open>color\<close> channel, and the strings of a scale's \<open>range\<close>. The data payload is the
  caller's (or the gauge's numeric rows) and is not searched. The first argument is the
  key under which the value sits.
\<close>

definition colour_keys :: "string list" where
  "colour_keys =
    [''color'', ''subtitleColor'', ''background'', ''stroke'', ''labelColor'', ''titleColor'',
     ''gridColor'', ''fill'', ''range'']"

fun colour_literals :: "string \<Rightarrow> 'f json \<Rightarrow> string list" where
  "colour_literals k (JStr s) = (if k \<in> set colour_keys then [s] else [])"
| "colour_literals k (JArr xs) = concat (map (colour_literals k) xs)"
| "colour_literals k (JObj kvs) =
     concat (map (\<lambda>(k', v).
        if k' = ''data'' then []
        else colour_literals (if k = ''color'' \<and> k' = ''value'' then ''color'' else k') v) kvs)"
| "colour_literals k j = []"

definition result_colours :: "error + 'f json \<Rightarrow> string list" where
  "result_colours res = (case res of Inl e \<Rightarrow> [] | Inr doc \<Rightarrow> colour_literals [] doc)"

definition allowed_colours :: "string list" where
  "allowed_colours = map snd BRAND @ BRAND_PALETTE @ [''#374151'', ''#1e293b'']"

definition base_colours :: "string list" where
  "base_colours =
    [brand ''text'', brand ''text_muted'', brand ''bg_dark'', brand ''text_muted'', brand ''text'',
     ''#374151'', brand ''text_muted'', brand ''text'']"

section \<open>Dispatch\<close>

lemma fst_generate: "fst (generate f eng r) = run_generator f r"
  by (simp add: generate_def split: sum.split)

lemma run_generator_unknown:
  "chart_type r \<notin> set CHART_TYPES \<Longrightarrow> run_generator f r = gen_bar r"
  by (simp add: run_generator_def generators_def dict_get_def CHART_TYPES_def)

lemma run_generator_bar: "chart_type r = ''bar'' \<Longrightarrow> run_generator f r = gen_bar r"
  by (simp add: run_generator_def generators_def dict_get_def)

lemma run_generator_line: "chart_type r = ''line'' \<Longrightarrow> run_generator f r = gen_line r"
  by (simp add: run_generator_def generators_def dict_get_def)

lemma run_generator_scatter:
  "chart_type r = ''scatter'' \<Longrightarrow> run_generator f r = gen_scatter r"
  by (simp add: run_generator_def generators_def dict_get_def)

lemma run_generator_pie: "chart_type r = ''pie'' \<Longrightarrow> run_generator f r = gen_pie r"
  by (simp add: run_generator_def generators_def dict_get_def)

lemma run_generator_gauge:
  "chart_type r = ''gauge'' \<Longrightarrow> run_generator f r = gen_gauge f r"
  by (simp add: run_generator_def generators_def dict_get_def)

lemma run_generator_funnel:
  "chart_type r = ''funnel'' \<Longrightarrow> run_generator f r = gen_funnel r"
  by (simp add: run_generator_def generators_def dict_get_def)

lemma run_generator_heatmap:
  "chart_type r = ''heatmap'' \<Longrightarrow> run_generator f r = gen_heatmap r"
  by (simp add: run_generator_def generators_def dict_get_def)

lemma run_generator_radial:
  "chart_type r = ''radial'' \<Longrightarrow> run_generator f r = gen_radial r"
  by (simp add: run_generator_def generators_def dict_get_def)

lemma run_generator_timeline:
  "chart_type r = ''timeline'' \<Longrightarrow> run_generator f r = gen_timeline r"
  by (simp add: run_generator_def generators_def dict_get_def)

text \<open>Every kind but the gauge goes to one of the eight rules that cannot raise.\<close>

lemma run_generator_not_gauge:
  "chart_type r \<noteq> ''gauge'' \<Longrightarrow>
   run_generator f r \<in> {gen_bar r, gen_line r, gen_scatter r, gen_pie r, gen_funnel r,
                         gen_heatmap r, gen_radial r, gen_timeline r}"
  by (simp add: run_generator_def generators_def dict_get_def)

lemmas gen_defs = gen_bar_def gen_line_def gen_scatter_def gen_pie_def gen_funnel_def
  gen_heatmap_def gen_radial_def gen_timeline_def

section \<open>The data payload and the gauge rows\<close>

lemma data_values_not_gauge:
  assumes "chart_type r \<noteq> ''gauge''"
  shows "result_path [''data'', ''values''] (run_generator f r) =
           Some (JArr (map JObj (data r)))"
proof -
  have "\<And>g. g \<in> {gen_bar r, gen_line r, gen_scatter r, gen_pie r, gen_funnel r,
                    gen_heatmap r, gen_radial r, gen_timeline r} \<Longrightarrow>
     result_path [''data'', ''values''] g = Some (JArr (map JObj (data r)))"
    by (auto simp: result_path_def gen_defs base_spec_def)
  then show ?thesis using run_generator_not_gauge [OF assms] by blast
qed

lemma gen_gauge_rows:
  "py_rsub f 100 (gauge_value r) = Inr rem \<Longrightarrow>
   result_path [''data'', ''values''] (gen_gauge f r) =
     Some (JArr [JObj [(''segment'', JStr ''Value''), (''value'', gauge_value r)],
                 JObj [(''segment'', JStr ''Remaining''), (''value'', rem)]])"
  by (simp add: result_path_def gen_gauge_def base_spec_def)

lemma gen_gauge_returns: "returns (gen_gauge f r) = py_number (gauge_value r)"
  by (cases "gauge_value r") (simp_all add: gen_gauge_def returns_def)

lemma returns_not_gauge:
  assumes "chart_type r \<noteq> ''gauge''"
  shows "returns (run_generator f r)"
proof -
  have "\<And>g. g \<in> {gen_bar r, gen_line r, gen_scatter r, gen_pie r, gen_funnel r,
                    gen_heatmap r, gen_radial r, gen_timeline r} \<Longrightarrow> returns g"
    by (auto simp: returns_def gen_defs)
  then show ?thesis using run_generator_not_gauge [OF assms] by blast
qed

section \<open>Empty data\<close>

text \<open>
  C1, as the program has it. A request whose data is the empty list never raises. For
  every kind but the gauge (an unrecognised kind included, which is dispatched to the bar
  rule) the document's \<open>data.values\<close> is the empty list. The gauge rule replaces the
  payload by its two synthetic rows, both with value 50.
\<close>

theorem empty_data_values:
  assumes "data r = []"
  shows "returns (fst (generate f eng r)) \<and>
     result_path [''data'', ''values''] (fst (generate f eng r)) =
       Some (if chart_type r = ''gauge''
             then JArr [JObj [(''segment'', JStr ''Value''), (''value'', JInt 50)],
                        JObj [(''segment'', JStr ''Remaining''), (''value'', JInt 50)]]
             else JArr [])"
proof (cases "chart_type r = ''gauge''")
  case True
  have v: "gauge_value r = JInt 50"
    using assms by (simp add: gauge_value_def)
  have "py_rsub f 100 (gauge_value r) = Inr (JInt 50)"
    by (simp add: v)
  from gen_gauge_rows [OF this] show ?thesis
    by (simp add: True fst_generate run_generator_gauge gen_gauge_returns v)
next
  case False
  then show ?thesis
    using assms by (simp add: fst_generate data_values_not_gauge returns_not_gauge)
qed

theorem empty_data_values_witness:
  "data (VizRequest_init ''Sales'' ''pie'' [] None None None [] [] ''2025-01-01T00:00:00''
           :: rat VizRequest) = [] \<and>
   returns (fst (generate exact_rsub DynamicVizEngine_init
     (VizRequest_init ''Sales'' ''pie'' [] None None None [] [] ''2025-01-01T00:00:00''))) \<and>
   result_path [''data'', ''values'']
     (fst (generate exact_rsub DynamicVizEngine_init
        (VizRequest_init ''Sales'' ''pie'' [] None None None [] [] ''2025-01-01T00:00:00''))) =
     Some (JArr [])"
  using empty_data_values
    [of "VizRequest_init ''Sales'' ''pie'' [] None None None [] [] ''2025-01-01T00:00:00''"
        exact_rsub DynamicVizEngine_init]
  by (simp add: VizRequest_init_def CHART_TYPES_def)

text \<open>
  The claim as stated fails for the gauge: with empty data its \<open>data.values\<close> holds the
  two synthetic rows, not the empty list.
\<close>

theorem empty_data_gauge_counterexample:
  "result_path [''data'', ''values'']
     (fst (generate exact_rsub DynamicVizEngine_init
        (VizRequest_init ''Score'' ''gauge'' [] None None None [] [] ''2025-01-01T00:00:00''))) =
     Some (JArr [JObj [(''segment'', JStr ''Value''), (''value'', JInt 50)],
                 JObj [(''segment'', JStr ''Remaining''), (''value'', JInt 50)]]) \<and>
   result_path [''data'', ''values'']
     (fst (generate exact_rsub DynamicVizEngine_init
        (VizRequest_init ''Score'' ''gauge'' [] None None None [] [] ''2025-01-01T00:00:00''))) \<noteq>
     Some (JArr [])"
  by (simp add: fst_generate run_generator_gauge VizRequest_init_def CHART_TYPES_def
      result_path_def gen_gauge_def gauge_value_def base_spec_def Let_def)

section \<open>Unrecognised chart kinds\<close>

text \<open>
  C2. For every string that is not one of the nine enumerated chart kinds, the constructor
  yields a request whose \<open>chart_type\<close> is \<open>bar\<close>, and \<open>generate\<close> on that request
  returns the bar rule's document, whose mark is the bar rule's mark.
\<close>

theorem unknown_kind_becomes_bar:
  assumes "ct \<notin> set CHART_TYPES"
  shows "chart_type (VizRequest_init t ct d xf yf cf de ins now) = ''bar'' \<and>
     fst (generate f eng (VizRequest_init t ct d xf yf cf de ins now)) =
       gen_bar (VizRequest_init t ct d xf yf cf de ins now) \<and>
     result_path [''mark''] (fst (generate f eng (VizRequest_init t ct d xf yf cf de ins now))) =
       Some (JObj [(''type'', JStr ''bar''), (''cornerRadiusEnd'', JInt 4)])"
proof -
  let ?r = "VizRequest_init t ct d xf yf cf de ins now"
  have ct: "chart_type ?r = ''bar''"
    using assms by (simp add: VizRequest_init_def)
  have "result_path [''mark''] (gen_bar ?r) =
      Some (JObj [(''type'', JStr ''bar''), (''cornerRadiusEnd'', JInt 4)])"
    by (simp add: result_path_def gen_bar_def base_spec_def)
  then show ?thesis
    by (simp add: ct fst_generate run_generator_bar)
qed

theorem unknown_kind_becomes_bar_witness:
  "''sankey'' \<notin> set CHART_TYPES \<and>
   chart_type (VizRequest_init ''Flows'' ''sankey'' [[(''category'', JStr ''a''), (''value'', JInt 1)]]
       None None None [] [] ''2025-01-01T00:00:00'' :: rat VizRequest) = ''bar'' \<and>
   result_path [''mark''] (fst (generate exact_rsub DynamicVizEngine_init
      (VizRequest_init ''Flows'' ''sankey'' [[(''category'', JStr ''a''), (''value'', JInt 1)]]
         None None None [] [] ''2025-01-01T00:00:00''))) =
     Some (JObj [(''type'', JStr ''bar''), (''cornerRadiusEnd'', JInt 4)])"
proof -
  have h: "''sankey'' \<notin> set CHART_TYPES"
    by (simp add: CHART_TYPES_def)
  from h unknown_kind_becomes_bar [OF h, of "''Flows''"
      "[[(''category'', JStr ''a''), (''value'', JInt 1)]]" None None None "[]" "[]"
      "''2025-01-01T00:00:00''" exact_rsub DynamicVizEngine_init]
  show ?thesis by blast
qed

section \<open>When generation returns\<close>

text \<open>
  When \<open>generate\<close> returns: always for a kind other than the gauge, whatever the records
  hold; for the gauge exactly when the value read by the rule is a number, that is the
  fallback 50 (empty data, or a first record without the value field) or an int, a float
  or a bool of the first record.
\<close>

lemma generate_returns_iff:
  "returns (fst (generate f eng r)) \<longleftrightarrow>
     (chart_type r \<noteq> ''gauge'' \<or> py_number (gauge_value r))"
proof (cases "chart_type r = ''gauge''")
  case True
  then show ?thesis by (simp add: fst_generate run_generator_gauge gen_gauge_returns)
next
  case False
  then show ?thesis by (simp add: fst_generate returns_not_gauge)
qed

lemma generate_returns_bar_example:
  "returns (fst (generate exact_rsub DynamicVizEngine_init
      (VizRequest_init ''Risk'' ''bar'' [[(''value'', JStr ''high'')]] None None None [] []
         ''2025-01-01T00:00:00'')))"
  using generate_returns_iff [of exact_rsub DynamicVizEngine_init
      "VizRequest_init ''Risk'' ''bar'' [[(''value'', JStr ''high'')]] None None None [] []
         ''2025-01-01T00:00:00''"]
  by (simp add: VizRequest_init_def CHART_TYPES_def)

text \<open>
  C3. The claim is that \<open>generate\<close> returns a document, and never raises, for every
  request whose records map field names to strings or numbers. The gauge rule misses it:
  a gauge request whose first record holds a string in its value field raises
  \<^verbatim>\<open>TypeError\<close> at \<^verbatim>\<open>max_val - value\<close>. The rule itself falls back to 50 for empty
  data and for a record without the field, and the bar rule returns for the very same
  record.
\<close>

theorem gauge_string_value_raises:
  "fst (generate exact_rsub DynamicVizEngine_init
      (VizRequest_init ''Risk'' ''gauge'' [[(''value'', JStr ''high'')]] None None None [] []
         ''2025-01-01T00:00:00'')) = Inl TypeError \<and>
   returns (fst (generate exact_rsub DynamicVizEngine_init
      (VizRequest_init ''Risk'' ''gauge'' [[(''score'', JStr ''high'')]] None None None [] []
         ''2025-01-01T00:00:00''))) \<and>
   returns (fst (generate exact_rsub DynamicVizEngine_init
      (VizRequest_init ''Risk'' ''bar'' [[(''value'', JStr ''high'')]] None None None [] []
         ''2025-01-01T00:00:00'')))"
  by (simp add: fst_generate run_generator_gauge run_generator_bar VizRequest_init_def
      CHART_TYPES_def gen_gauge_def gen_bar_def gauge_value_def dict_get_def returns_def
      Let_def)

section \<open>The gauge rows\<close>

text \<open>
  C4. For the gauge kind, with the value field resolving to \<open>value\<close> (\<open>y_field\<close>
  omitted, empty or \<open>value\<close>): given the single record \<open>{value: v}\<close> the document's
  data is exactly the two rows \<open>{segment: Value, value: v}\<close> and
  \<open>{segment: Remaining, value: 100 - v}\<close>, so 85 gives 85 and 15; given empty data both
  rows have value 50.
\<close>

theorem gauge_rows:
  assumes "chart_type r = ''gauge''"
  shows "(or_default (y_field r) ''value'' = ''value'' \<and> data r = [[(''value'', JInt v)]] \<longrightarrow>
       result_path [''data'', ''values''] (fst (generate f eng r)) =
         Some (JArr [JObj [(''segment'', JStr ''Value''), (''value'', JInt v)],
                     JObj [(''segment'', JStr ''Remaining''), (''value'', JInt (100 - v))]])) \<and>
     (data r = [] \<longrightarrow>
       result_path [''data'', ''values''] (fst (generate f eng r)) =
         Some (JArr [JObj [(''segment'', JStr ''Value''), (''value'', JInt 50)],
                     JObj [(''segment'', JStr ''Remaining''), (''value'', JInt 50)]]))"
proof (intro conjI impI)
  assume a: "or_default (y_field r) ''value'' = ''value'' \<and> data r = [[(''value'', JInt v)]]"
  then have v: "gauge_value r = JInt v"
    by (simp add: gauge_value_def dict_get_def)
  have "py_rsub f 100 (gauge_value r) = Inr (JInt (100 - v))"
    by (simp add: v)
  from gen_gauge_rows [OF this]
  show "result_path [''data'', ''values''] (fst (generate f eng r)) =
         Some (JArr [JObj [(''segment'', JStr ''Value''), (''value'', JInt v)],
                     JObj [(''segment'', JStr ''Remaining''), (''value'', JInt (100 - v))]])"
    by (simp add: assms fst_generate run_generator_gauge v)
next
  assume "data r = []"
  then have v: "gauge_value r = JInt 50"
    by (simp add: gauge_value_def)
  have "py_rsub f 100 (gauge_value r) = Inr (JInt 50)"
    by (simp add: v)
  from gen_gauge_rows [OF this]
  show "result_path [''data'', ''values''] (fst (generate f eng r)) =
         Some (JArr [JObj [(''segment'', JStr ''Value''), (''value'', JInt 50)],
                     JObj [(''segment'', JStr ''Remaining''), (''value'', JInt 50)]])"
    by (simp add: assms fst_generate run_generator_gauge v)
qed

theorem gauge_rows_witness:
  "chart_type (VizRequest_init ''Score'' ''gauge'' [[(''value'', JInt 85)]] None None None [] []
      ''2025-01-01T00:00:00'' :: rat VizRequest) = ''gauge'' \<and>
   result_path [''data'', ''values''] (fst (generate exact_rsub DynamicVizEngine_init
      (VizRequest_init ''Score'' ''gauge'' [[(''value'', JInt 85)]] None None None [] []
         ''2025-01-01T00:00:00''))) =
     Some (JArr [JObj [(''segment'', JStr ''Value''), (''value'', JInt 85)],
                 JObj [(''segment'', JStr ''Remaining''), (''value'', JInt 15)]]) \<and>
   chart_type (VizRequest_init ''Score'' ''gauge'' [] None None None [] []
      ''2025-01-01T00:00:00'' :: rat VizRequest) = ''gauge'' \<and>
   result_path [''data'', ''values''] (fst (generate exact_rsub DynamicVizEngine_init
      (VizRequest_init ''Score'' ''gauge'' [] None None None [] [] ''2025-01-01T00:00:00''))) =
     Some (JArr [JObj [(''segment'', JStr ''Value''), (''value'', JInt 50)],
                 JObj [(''segment'', JStr ''Remaining''), (''value'', JInt 50)]])"
  using gauge_rows [of "VizRequest_init ''Score'' ''gauge'' [[(''value'', JInt 85)]] None None
      None [] [] ''2025-01-01T00:00:00''" 85 exact_rsub DynamicVizEngine_init]
    gauge_rows [of "VizRequest_init ''Score'' ''gauge'' [] None None
      None [] [] ''2025-01-01T00:00:00''" 0 exact_rsub DynamicVizEngine_init]
  by (simp add: VizRequest_init_def CHART_TYPES_def)

text \<open>
  C10. For every gauge request whose data is non-empty and whose first record does not
  contain the value field (\<open>y_field\<close> if supplied, else \<open>value\<close>), the rule emits the
  rows \<open>{segment: Value, value: 50}\<close> and \<open>{segment: Remaining, value: 50}\<close>, as it
  does for empty data.
\<close>

theorem gauge_missing_key:
  assumes "chart_type r = ''gauge''"
    and "data r = d0 # ds"
    and "map_of d0 (or_default (y_field r) ''value'') = None"
  shows "result_path [''data'', ''values''] (fst (generate f eng r)) =
         Some (JArr [JObj [(''segment'', JStr ''Value''), (''value'', JInt 50)],
                     JObj [(''segment'', JStr ''Remaining''), (''value'', JInt 50)]])"
proof -
  have v: "gauge_value r = JInt 50"
    using assms(2,3) by (simp add: gauge_value_def dict_get_def)
  have "py_rsub f 100 (gauge_value r) = Inr (JInt 50)"
    by (simp add: v)
  from gen_gauge_rows [OF this] show ?thesis
    by (simp add: assms(1) fst_generate run_generator_gauge v)
qed

theorem gauge_missing_key_witness:
  "chart_type (VizRequest_init ''Score'' ''gauge'' [[(''score'', JInt 85)], [(''value'', JInt 7)]]
      None None None [] [] ''2025-01-01T00:00:00'' :: rat VizRequest) = ''gauge'' \<and>
   map_of [(''score'', JInt 85 :: rat json)] ''value'' = None \<and>
   result_path [''data'', ''values''] (fst (generate exact_rsub DynamicVizEngine_init
      (VizRequest_init ''Score'' ''gauge'' [[(''score'', JInt 85)], [(''value'', JInt 7)]]
         None None None [] [] ''2025-01-01T00:00:00''))) =
     Some (JArr [JObj [(''segment'', JStr ''Value''), (''value'', JInt 50)],
                 JObj [(''segment'', JStr ''Remaining''), (''value'', JInt 50)]])"
  using gauge_missing_key [of "VizRequest_init ''Score'' ''gauge''
      [[(''score'', JInt 85)], [(''value'', JInt 7)]] None None None [] []
      ''2025-01-01T00:00:00''" "[(''score'', JInt 85)]" "[[(''value'', JInt 7)]]"
      exact_rsub DynamicVizEngine_init]
  by (simp add: VizRequest_init_def CHART_TYPES_def)

section \<open>The session history\<close>

lemma generate_history:
  "generated_charts (snd (generate f eng r)) = generated_charts eng @ recorded f r"
  by (simp add: recorded_def generate_def split: sum.split)

lemma generate_all_history:
  "generated_charts (generate_all f eng rs) = generated_charts eng @ concat (map (recorded f) rs)"
  by (induction rs arbitrary: eng) (simp_all add: generate_history)

lemma recorded_returns:
  "returns (run_generator f r) \<Longrightarrow> length (recorded f r) = 1"
  by (simp add: recorded_def returns_def fst_generate split: sum.splits)

lemma length_concat_recorded:
  "\<forall>r \<in> set rs. length (recorded f r) = 1 \<Longrightarrow> length (concat (map (recorded f) rs)) = length rs"
  by (induction rs) simp_all

text \<open>
  What a sequence of \<open>generate\<close> calls does to the history: after one call per request
  of \<open>rs\<close> on one engine, the history is the history before, unchanged, followed by one
  record for each call that returned, in call order, each pairing the request with the
  document returned for it. When all the calls return, the history has grown by exactly
  the number of calls.
\<close>

lemma history_append_only:
  "get_chart_history \<lparr>engine = generate_all f eng rs\<rparr> =
     get_chart_history \<lparr>engine = eng\<rparr> @ concat (map (recorded f) rs) \<and>
   ((\<forall>r \<in> set rs. returns (fst (generate f eng r))) \<longrightarrow>
      length (get_chart_history \<lparr>engine = generate_all f eng rs\<rparr>) =
        length (get_chart_history \<lparr>engine = eng\<rparr>) + length rs)"
proof (intro conjI impI)
  show eq: "get_chart_history \<lparr>engine = generate_all f eng rs\<rparr> =
     get_chart_history \<lparr>engine = eng\<rparr> @ concat (map (recorded f) rs)"
    by (simp add: get_chart_history_def generate_all_history)
  assume "\<forall>r \<in> set rs. returns (fst (generate f eng r))"
  then have "\<forall>r \<in> set rs. length (recorded f r) = 1"
    by (simp add: recorded_returns fst_generate)
  then have "length (concat (map (recorded f) rs)) = length rs"
    by (rule length_concat_recorded)
  then show "length (get_chart_history \<lparr>engine = generate_all f eng rs\<rparr>) =
        length (get_chart_history \<lparr>engine = eng\<rparr>) + length rs"
    by (simp add: eq)
qed

lemma history_append_only_example:
  "returns (fst (generate exact_rsub DynamicVizEngine_init
      (VizRequest_init ''First'' ''bar'' [] None None None [] [] ''2025-01-01T00:00:00''))) \<and>
   returns (fst (generate exact_rsub DynamicVizEngine_init
      (VizRequest_init ''Second'' ''line'' [] None None None [] [] ''2025-01-01T00:00:01''))) \<and>
   length (get_chart_history \<lparr>engine = generate_all exact_rsub DynamicVizEngine_init
      [VizRequest_init ''First'' ''bar'' [] None None None [] [] ''2025-01-01T00:00:00'',
       VizRequest_init ''Second'' ''line'' [] None None None [] [] ''2025-01-01T00:00:01'']\<rparr>) = 2 \<and>
   map (get_path [''request'', ''title''])
     (get_chart_history \<lparr>engine = generate_all exact_rsub DynamicVizEngine_init
      [VizRequest_init ''First'' ''bar'' [] None None None [] [] ''2025-01-01T00:00:00'',
       VizRequest_init ''Second'' ''line'' [] None None None [] [] ''2025-01-01T00:00:01'']\<rparr>) =
     [Some (JStr ''First''), Some (JStr ''Second'')]"
proof -
  let ?a = "VizRequest_init ''First'' ''bar'' [] None None None [] [] ''2025-01-01T00:00:00''
              :: rat VizRequest"
  let ?b = "VizRequest_init ''Second'' ''line'' [] None None None [] [] ''2025-01-01T00:00:01''
              :: rat VizRequest"
  have ka: "chart_type ?a = ''bar''" and kb: "chart_type ?b = ''line''"
    by (simp_all add: VizRequest_init_def CHART_TYPES_def)
  have ra: "returns (fst (generate exact_rsub DynamicVizEngine_init ?a))"
    by (simp add: fst_generate run_generator_bar [OF ka] gen_bar_def returns_def)
  have rb: "returns (fst (generate exact_rsub DynamicVizEngine_init ?b))"
    by (simp add: fst_generate run_generator_line [OF kb] gen_line_def returns_def)
  have ta: "map (get_path [''request'', ''title'']) (recorded exact_rsub ?a) =
      [Some (JStr ''First'')]"
    by (simp add: recorded_def fst_generate run_generator_bar [OF ka] gen_bar_def
        history_entry_def to_dict_def)
      (simp add: VizRequest_init_def)
  have tb: "map (get_path [''request'', ''title'']) (recorded exact_rsub ?b) =
      [Some (JStr ''Second'')]"
    by (simp add: recorded_def fst_generate run_generator_line [OF kb] gen_line_def
        history_entry_def to_dict_def)
      (simp add: VizRequest_init_def)
  have h0: "get_chart_history \<lparr>engine = DynamicVizEngine_init :: rat DynamicVizEngine\<rparr> = []"
    by (simp add: get_chart_history_def DynamicVizEngine_init_def)
  note app = history_append_only [of exact_rsub DynamicVizEngine_init "[?a, ?b]"]
  have "\<forall>r \<in> set [?a, ?b]. returns (fst (generate exact_rsub DynamicVizEngine_init r))"
    using ra rb by simp
  with app
  have "length (get_chart_history \<lparr>engine = generate_all exact_rsub DynamicVizEngine_init
      [?a, ?b]\<rparr>) =
     length (get_chart_history \<lparr>engine = DynamicVizEngine_init :: rat DynamicVizEngine\<rparr>) +
     length [?a, ?b]"
    by blast
  with h0
  have len: "length (get_chart_history \<lparr>engine = generate_all exact_rsub DynamicVizEngine_init
      [?a, ?b]\<rparr>) = 2"
    by simp
  from app
  have "get_chart_history \<lparr>engine = generate_all exact_rsub DynamicVizEngine_init
      [?a, ?b]\<rparr> =
     get_chart_history \<lparr>engine = DynamicVizEngine_init :: rat DynamicVizEngine\<rparr> @
     concat (map (recorded exact_rsub) [?a, ?b])"
    by blast
  with h0 ta tb
  have titles: "map (get_path [''request'', ''title''])
     (get_chart_history \<lparr>engine = generate_all exact_rsub DynamicVizEngine_init [?a, ?b]\<rparr>) =
     [Some (JStr ''First''), Some (JStr ''Second'')]"
    by simp
  from ra rb len titles show ?thesis by blast
qed

text \<open>
  C5. The claim is that N calls of \<open>generate\<close> on one engine leave exactly N records, in
  call order. The code breaks it through the gauge rule's \<^verbatim>\<open>TypeError\<close>: the rule
  raises before the append, so after one call with a gauge request whose first record
  holds a string in its value field the history is still empty.
\<close>

theorem history_raising_call_leaves_no_record:
  "fst (generate exact_rsub DynamicVizEngine_init
      (VizRequest_init ''Risk'' ''gauge'' [[(''value'', JStr ''high'')]] None None None [] []
         ''2025-01-01T00:00:00'')) = Inl TypeError \<and>
   get_chart_history \<lparr>engine = generate_all exact_rsub DynamicVizEngine_init
      [VizRequest_init ''Risk'' ''gauge'' [[(''value'', JStr ''high'')]] None None None [] []
         ''2025-01-01T00:00:00'']\<rparr> = []"
proof -
  have "fst (generate exact_rsub DynamicVizEngine_init
      (VizRequest_init ''Risk'' ''gauge'' [[(''value'', JStr ''high'')]] None None None [] []
         ''2025-01-01T00:00:00'')) = Inl TypeError"
    by (simp add: fst_generate run_generator_gauge VizRequest_init_def CHART_TYPES_def
        gen_gauge_def gauge_value_def dict_get_def Let_def)
  then show ?thesis
    by (simp add: get_chart_history_def generate_history recorded_def
        DynamicVizEngine_init_def)
qed

section \<open>Default field names\<close>

lemma fields_bar:
  "result_path [''encoding'', ''x'', ''field''] (gen_bar r) =
     Some (JStr (or_default (x_field r) ''category''))"
  "result_path [''encoding'', ''y'', ''field''] (gen_bar r) =
     Some (JStr (or_default (y_field r) ''value''))"
  by (simp_all add: result_path_def gen_bar_def base_spec_def)

lemma fields_line:
  "result_path [''encoding'', ''x'', ''field''] (gen_line r) =
     Some (JStr (or_default (x_field r) ''date''))"
  "result_path [''encoding'', ''y'', ''field''] (gen_line r) =
     Some (JStr (or_default (y_field r) ''value''))"
  by (simp_all add: result_path_def gen_line_def base_spec_def)

lemma fields_scatter:
  "result_path [''encoding'', ''x'', ''field''] (gen_scatter r) =
     Some (JStr (or_default (x_field r) ''x''))"
  "result_path [''encoding'', ''y'', ''field''] (gen_scatter r) =
     Some (JStr (or_default (y_field r) ''y''))"
  "result_path [''encoding'', ''color'', ''field''] (gen_scatter r) =
     Some (JStr (or_default (color_field r) ''category''))"
  by (simp_all add: result_path_def gen_scatter_def base_spec_def)

lemma fields_pie:
  "result_path [''encoding'', ''color'', ''field''] (gen_pie r) =
     Some (JStr (or_default (x_field r) ''category''))"
  "result_path [''encoding'', ''theta'', ''field''] (gen_pie r) =
     Some (JStr (or_default (y_field r) ''value''))"
  by (simp_all add: result_path_def gen_pie_def base_spec_def)

lemma fields_funnel:
  "result_path [''encoding'', ''y'', ''field''] (gen_funnel r) =
     Some (JStr (or_default (x_field r) ''stage''))"
  "result_path [''encoding'', ''x'', ''field''] (gen_funnel r) =
     Some (JStr (or_default (y_field r) ''value''))"
  by (simp_all add: result_path_def gen_funnel_def base_spec_def)

lemma fields_heatmap:
  "result_path [''encoding'', ''x'', ''field''] (gen_heatmap r) =
     Some (JStr (or_default (x_field r) ''x''))"
  "result_path [''encoding'', ''y'', ''field''] (gen_heatmap r) =
     Some (JStr (or_default (y_field r) ''y''))"
  "result_path [''encoding'', ''color'', ''field''] (gen_heatmap r) =
     Some (JStr (or_default (color_field r) ''value''))"
  by (simp_all add: result_path_def gen_heatmap_def base_spec_def)

lemma fields_radial:
  "result_path [''encoding'', ''color'', ''field''] (gen_radial r) =
     Some (JStr (or_default (x_field r) ''category''))"
  "result_path [''encoding'', ''theta'', ''field''] (gen_radial r) =
     Some (JStr (or_default (y_field r) ''value''))"
  by (simp_all add: result_path_def gen_radial_def base_spec_def)

lemma fields_timeline:
  "result_path [''encoding'', ''x'', ''field''] (gen_timeline r) =
     Some (JStr (or_default (x_field r) ''date''))"
  "result_path [''encoding'', ''color'', ''field''] (gen_timeline r) =
     Some (JStr (or_default (color_field r) ''category''))"
  by (simp_all add: result_path_def gen_timeline_def base_spec_def)

lemma default_fields_or_default:
  assumes "(kind, path, fld, dflt) \<in> set spec_default_fields" and "chart_type r = kind"
  shows "result_path path (run_generator f r) = Some (JStr (or_default (field_of fld r) dflt))"
  using assms unfolding spec_default_fields_def
  by (auto simp: run_generator_bar run_generator_line run_generator_scatter run_generator_pie
      run_generator_funnel run_generator_heatmap run_generator_radial run_generator_timeline
      fields_bar fields_line fields_scatter fields_pie fields_funnel fields_heatmap
      fields_radial fields_timeline)

text \<open>
  C6, as the program has it. For each kind and channel of the table, a request that omits
  the field gets the kind's default field name in that channel, and a request that
  supplies a non-empty field name gets that name. An empty string is treated as omitted:
  the default is used.
\<close>

theorem field_defaults_and_precedence:
  assumes "(kind, path, fld, dflt) \<in> set spec_default_fields" and "chart_type r = kind"
  shows "(field_of fld r = None \<longrightarrow>
            result_path path (fst (generate f eng r)) = Some (JStr dflt)) \<and>
         (\<forall>n. field_of fld r = Some n \<and> n \<noteq> [] \<longrightarrow>
            result_path path (fst (generate f eng r)) = Some (JStr n)) \<and>
         (field_of fld r = Some [] \<longrightarrow>
            result_path path (fst (generate f eng r)) = Some (JStr dflt))"
  using default_fields_or_default [OF assms, of f]
  by (simp add: fst_generate)

theorem field_defaults_and_precedence_witness:
  "(''scatter'', [''encoding'', ''color'', ''field''], ColorField, ''category'')
     \<in> set spec_default_fields \<and>
   result_path [''encoding'', ''color'', ''field'']
     (fst (generate exact_rsub DynamicVizEngine_init
        (VizRequest_init ''Points'' ''scatter'' [] None None None [] []
           ''2025-01-01T00:00:00''))) = Some (JStr ''category'') \<and>
   result_path [''encoding'', ''color'', ''field'']
     (fst (generate exact_rsub DynamicVizEngine_init
        (VizRequest_init ''Points'' ''scatter'' [] None None (Some ''group'') [] []
           ''2025-01-01T00:00:00''))) = Some (JStr ''group'')"
proof -
  have m: "(''scatter'', [''encoding'', ''color'', ''field''], ColorField, ''category'')
     \<in> set spec_default_fields"
    by (simp add: spec_default_fields_def)
  have k: "chart_type (VizRequest_init ''Points'' ''scatter'' [] None None cf [] []
           ''2025-01-01T00:00:00'' :: rat VizRequest) = ''scatter''" for cf
    by (simp add: VizRequest_init_def CHART_TYPES_def)
  from field_defaults_and_precedence [OF m k, of None exact_rsub DynamicVizEngine_init]
    field_defaults_and_precedence [OF m k, of "Some ''group''" exact_rsub DynamicVizEngine_init]
    m
  show ?thesis by (simp add: VizRequest_init_def)
qed

text \<open>
  The claim as stated fails: a bar request that supplies the empty string as \<open>x_field\<close>
  (a key of its record) gets the default \<open>category\<close> in \<open>encoding.x.field\<close>.
\<close>

theorem empty_field_name_counterexample:
  "result_path [''encoding'', ''x'', ''field'']
     (fst (generate exact_rsub DynamicVizEngine_init
        (VizRequest_init ''Totals'' ''bar'' [[([], JStr ''a''), (''value'', JInt 1)]]
           (Some []) None None [] [] ''2025-01-01T00:00:00''))) = Some (JStr ''category'')"
  by (simp add: fst_generate run_generator_bar VizRequest_init_def CHART_TYPES_def fields_bar)

section \<open>Funnel ordering\<close>

text \<open>
  C7. For every funnel request the stage-label channel \<open>encoding.y\<close> carries
  \<open>sort: null\<close>, the colour channel carries \<open>legend: null\<close>, and \<open>data.values\<close> is the
  caller's list of records in the caller's order, whatever the values are; the stages
  Leads, Qualified, Closed with values 100, 40, 10 keep exactly that order.
\<close>

theorem funnel_order:
  assumes "chart_type r = ''funnel''"
  shows "result_path [''encoding'', ''y'', ''sort''] (fst (generate f eng r)) = Some JNull \<and>
     result_path [''encoding'', ''color'', ''legend''] (fst (generate f eng r)) = Some JNull \<and>
     result_path [''data'', ''values''] (fst (generate f eng r)) = Some (JArr (map JObj (data r)))"
  by (simp add: assms fst_generate run_generator_funnel result_path_def gen_funnel_def
      base_spec_def)

theorem funnel_order_witness:
  "chart_type (VizRequest_init ''Pipeline'' ''funnel''
      [[(''stage'', JStr ''Leads''), (''value'', JInt 100)],
       [(''stage'', JStr ''Qualified''), (''value'', JInt 40)],
       [(''stage'', JStr ''Closed''), (''value'', JInt 10)]]
      None None None [] [] ''2025-01-01T00:00:00'' :: rat VizRequest) = ''funnel'' \<and>
   result_path [''encoding'', ''y'', ''sort''] (fst (generate exact_rsub DynamicVizEngine_init
     (VizRequest_init ''Pipeline'' ''funnel''
      [[(''stage'', JStr ''Leads''), (''value'', JInt 100)],
       [(''stage'', JStr ''Qualified''), (''value'', JInt 40)],
       [(''stage'', JStr ''Closed''), (''value'', JInt 10)]]
      None None None [] [] ''2025-01-01T00:00:00''))) = Some JNull \<and>
   result_path [''data'', ''values''] (fst (generate exact_rsub DynamicVizEngine_init
     (VizRequest_init ''Pipeline'' ''funnel''
      [[(''stage'', JStr ''Leads''), (''value'', JInt 100)],
       [(''stage'', JStr ''Qualified''), (''value'', JInt 40)],
       [(''stage'', JStr ''Closed''), (''value'', JInt 10)]]
      None None None [] [] ''2025-01-01T00:00:00''))) =
     Some (JArr [JObj [(''stage'', JStr ''Leads''), (''value'', JInt 100)],
                 JObj [(''stage'', JStr ''Qualified''), (''value'', JInt 40)],
                 JObj [(''stage'', JStr ''Closed''), (''value'', JInt 10)]])"
  using funnel_order [of "VizRequest_init ''Pipeline'' ''funnel''
      [[(''stage'', JStr ''Leads''), (''value'', JInt 100)],
       [(''stage'', JStr ''Qualified''), (''value'', JInt 40)],
       [(''stage'', JStr ''Closed''), (''value'', JInt 10)]]
      None None None [] [] ''2025-01-01T00:00:00''" exact_rsub DynamicVizEngine_init]
  by (simp add: VizRequest_init_def CHART_TYPES_def)

section \<open>Colour sourcing\<close>

lemma colour_literals_range:
  "concat (map (colour_literals ''range'' \<circ> JStr) xs) = xs"
  by (induction xs) (simp_all add: colour_keys_def)

lemma colours_palette_rules:
  "result_colours (gen_bar r) = base_colours @ BRAND_PALETTE"
  "result_colours (gen_scatter r) = base_colours @ BRAND_PALETTE"
  "result_colours (gen_pie r) = base_colours @ BRAND_PALETTE"
  "result_colours (gen_funnel r) = base_colours @ BRAND_PALETTE"
  "result_colours (gen_radial r) = base_colours @ BRAND_PALETTE"
  "result_colours (gen_timeline r) = base_colours @ BRAND_PALETTE"
  by (simp_all add: result_colours_def gen_defs base_spec_def colour_keys_def base_colours_def
      colour_literals_range)

lemma colours_line: "result_colours (gen_line r) = base_colours @ [brand ''cyan'']"
  by (simp add: result_colours_def gen_line_def base_spec_def colour_keys_def base_colours_def)

lemma colours_heatmap:
  "result_colours (gen_heatmap r) = base_colours @ [brand ''purple'', brand ''cyan'']"
  by (simp add: result_colours_def gen_heatmap_def base_spec_def colour_keys_def
      base_colours_def)

lemma colours_gauge:
  "result_colours (gen_gauge f r) =
     (if py_number (gauge_value r) then base_colours @ [brand ''cyan'', ''#1e293b''] else [])"
  by (cases "gauge_value r")
    (simp_all add: result_colours_def gen_gauge_def base_spec_def colour_keys_def
      base_colours_def)

lemma allowed_colour_lists:
  "set (base_colours @ BRAND_PALETTE) \<subseteq> set allowed_colours"
  "set (base_colours @ [brand ''cyan'']) \<subseteq> set allowed_colours"
  "set (base_colours @ [brand ''purple'', brand ''cyan'']) \<subseteq> set allowed_colours"
  "set (base_colours @ [brand ''cyan'', ''#1e293b'']) \<subseteq> set allowed_colours"
  by (simp_all add: base_colours_def allowed_colours_def BRAND_PALETTE_def brand_def BRAND_def)

lemma colours_not_gauge:
  assumes "chart_type r \<noteq> ''gauge''"
  shows "set (result_colours (run_generator f r)) \<subseteq> set allowed_colours"
proof -
  have "\<And>g. g \<in> {gen_bar r, gen_line r, gen_scatter r, gen_pie r, gen_funnel r,
                    gen_heatmap r, gen_radial r, gen_timeline r} \<Longrightarrow>
     set (result_colours g) \<subseteq> set allowed_colours"
    using allowed_colour_lists
    by (auto simp only: colours_palette_rules colours_line colours_heatmap)
  then show ?thesis using run_generator_not_gauge [OF assms] by blast
qed

lemma colours_gauge_allowed: "set (result_colours (gen_gauge f r)) \<subseteq> set allowed_colours"
proof (cases "py_number (gauge_value r)")
  case True
  then show ?thesis using allowed_colour_lists(4) by (simp only: colours_gauge if_True)
next
  case False
  then show ?thesis by (simp add: colours_gauge)
qed

text \<open>
  C8. For every request of any kind, every colour literal of the generated document is a
  value of \<open>BRAND\<close>, a member of \<open>BRAND_PALETTE\<close>, or one of the two neutral constants
  \<open>#374151\<close> (grid line) and \<open>#1e293b\<close> (gauge track).
\<close>

theorem colours_from_branding:
  "set (result_colours (fst (generate f eng r))) \<subseteq> set allowed_colours"
proof (cases "chart_type r = ''gauge''")
  case True
  then show ?thesis by (simp add: fst_generate run_generator_gauge colours_gauge_allowed)
next
  case False
  then show ?thesis by (simp add: fst_generate colours_not_gauge)
qed

theorem colours_from_branding_witness:
  "result_colours (fst (generate exact_rsub DynamicVizEngine_init
      (VizRequest_init ''#123456'' ''gauge'' [[(''value'', JInt 85), (''color'', JStr ''red'')]]
         None None None [] ''#abcdef'' ''2025-01-01T00:00:00''))) =
     [''#e2e8f0'', ''#94a3b8'', ''#111827'', ''#94a3b8'', ''#e2e8f0'', ''#374151'', ''#94a3b8'',
      ''#e2e8f0'', ''#00F5FF'', ''#1e293b''] \<and>
   set (result_colours (fst (generate exact_rsub DynamicVizEngine_init
      (VizRequest_init ''#123456'' ''gauge'' [[(''value'', JInt 85), (''color'', JStr ''red'')]]
         None None None [] ''#abcdef'' ''2025-01-01T00:00:00'')))) \<subseteq> set allowed_colours"
proof -
  have "result_colours (fst (generate exact_rsub DynamicVizEngine_init
      (VizRequest_init ''#123456'' ''gauge'' [[(''value'', JInt 85), (''color'', JStr ''red'')]]
         None None None [] ''#abcdef'' ''2025-01-01T00:00:00''))) =
     [''#e2e8f0'', ''#94a3b8'', ''#111827'', ''#94a3b8'', ''#e2e8f0'', ''#374151'', ''#94a3b8'',
      ''#e2e8f0'', ''#00F5FF'', ''#1e293b'']"
    by (simp add: fst_generate run_generator_gauge VizRequest_init_def CHART_TYPES_def
        result_colours_def gen_gauge_def gauge_value_def dict_get_def base_spec_def
        colour_keys_def Let_def brand_def BRAND_def)
  with colours_from_branding [of exact_rsub DynamicVizEngine_init
      "VizRequest_init ''#123456'' ''gauge'' [[(''value'', JInt 85), (''color'', JStr ''red'')]]
         None None None [] ''#abcdef'' ''2025-01-01T00:00:00''"]
  show ?thesis by blast
qed

section \<open>Determinism\<close>

lemma base_spec_created_at:
  "base_spec (r\<lparr>created_at := t, description := d\<rparr>) = base_spec r"
  by (simp add: base_spec_def)

lemma gauge_value_created_at:
  "gauge_value (r\<lparr>created_at := t, description := d\<rparr>) = gauge_value r"
  by (simp add: gauge_value_def split: list.split)

lemma gen_gauge_created_at:
  "gen_gauge f (r\<lparr>created_at := t, description := d\<rparr>) = gen_gauge f r"
  by (simp add: gen_gauge_def base_spec_created_at gauge_value_created_at Let_def
      split: sum.split)

lemma gen_created_at:
  "gen_bar (r\<lparr>created_at := t, description := d\<rparr>) = gen_bar r"
  "gen_line (r\<lparr>created_at := t, description := d\<rparr>) = gen_line r"
  "gen_scatter (r\<lparr>created_at := t, description := d\<rparr>) = gen_scatter r"
  "gen_pie (r\<lparr>created_at := t, description := d\<rparr>) = gen_pie r"
  "gen_funnel (r\<lparr>created_at := t, description := d\<rparr>) = gen_funnel r"
  "gen_heatmap (r\<lparr>created_at := t, description := d\<rparr>) = gen_heatmap r"
  "gen_radial (r\<lparr>created_at := t, description := d\<rparr>) = gen_radial r"
  "gen_timeline (r\<lparr>created_at := t, description := d\<rparr>) = gen_timeline r"
  by (simp_all add: gen_defs base_spec_created_at)

lemma run_generator_created_at:
  "run_generator f (r\<lparr>created_at := t, description := d\<rparr>) = run_generator f r"
  by (simp add: run_generator_def generators_def dict_get_def gen_created_at
      gen_gauge_created_at)

lemma request_eqI:
  fixes r1 r2 :: "'f VizRequest"
  assumes "title r2 = title r1" "chart_type r2 = chart_type r1" "data r2 = data r1"
    "x_field r2 = x_field r1" "y_field r2 = y_field r1" "color_field r2 = color_field r1"
    "insight r2 = insight r1"
  shows "r2 = r1\<lparr>created_at := created_at r2, description := description r2\<rparr>"
  using assms by (cases r1, cases r2) simp

text \<open>
  C9. Two requests that agree on title, kind, data, field names, description and insight
  give the same outcome of \<open>generate\<close>, on any two engines: the same document. The two
  history records carry that same document, and their request parts agree on every key
  but \<open>created_at\<close>.
\<close>

theorem generate_deterministic:
  fixes r1 r2 :: "'f VizRequest"
  assumes "title r2 = title r1" "chart_type r2 = chart_type r1" "data r2 = data r1"
    "x_field r2 = x_field r1" "y_field r2 = y_field r1" "color_field r2 = color_field r1"
    "description r2 = description r1" "insight r2 = insight r1"
  shows "fst (generate f e1 r1) = fst (generate f e2 r2) \<and>
    (\<forall>doc. fst (generate f e1 r1) = Inr doc \<longrightarrow>
       generated_charts (snd (generate f e1 r1)) = generated_charts e1 @ [history_entry r1 doc] \<and>
       generated_charts (snd (generate f e2 r2)) = generated_charts e2 @ [history_entry r2 doc] \<and>
       get_path [''spec''] (history_entry r1 doc) = get_path [''spec''] (history_entry r2 doc) \<and>
       (\<forall>k. k \<noteq> ''created_at'' \<longrightarrow>
          get_path [''request'', k] (history_entry r1 doc) =
          get_path [''request'', k] (history_entry r2 doc)))"
proof -
  have "r2 = r1\<lparr>created_at := created_at r2, description := description r2\<rparr>"
    using assms by (intro request_eqI) simp_all
  then have "run_generator f r2 =
      run_generator f (r1\<lparr>created_at := created_at r2, description := description r2\<rparr>)"
    by (rule arg_cong)
  also have "\<dots> = run_generator f r1"
    by (rule run_generator_created_at)
  finally have same: "fst (generate f e1 r1) = fst (generate f e2 r2)"
    by (simp add: fst_generate)
  have entries: "get_path [''request'', k] (history_entry r1 doc) =
          get_path [''request'', k] (history_entry r2 doc)" if "k \<noteq> ''created_at''" for k doc
    using that assms by (simp add: history_entry_def to_dict_def)
  have hist: "generated_charts (snd (generate f e r)) = generated_charts e @ [history_entry r doc]"
    if "fst (generate f e r) = Inr doc" for e r doc
    using that by (simp add: generate_def split: sum.splits)
  show ?thesis
  proof (intro conjI allI impI)
    show "fst (generate f e1 r1) = fst (generate f e2 r2)" by (rule same)
  next
    fix doc assume d: "fst (generate f e1 r1) = Inr doc"
    then show "generated_charts (snd (generate f e1 r1)) =
        generated_charts e1 @ [history_entry r1 doc]" by (rule hist)
    from d same have "fst (generate f e2 r2) = Inr doc" by simp
    then show "generated_charts (snd (generate f e2 r2)) =
        generated_charts e2 @ [history_entry r2 doc]" by (rule hist)
    show "get_path [''spec''] (history_entry r1 doc) = get_path [''spec''] (history_entry r2 doc)"
      by (simp add: history_entry_def)
  next
    fix doc k assume "k \<noteq> ''created_at''"
    then show "get_path [''request'', k] (history_entry r1 doc) =
          get_path [''request'', k] (history_entry r2 doc)" by (rule entries)
  qed
qed

theorem generate_deterministic_witness:
  "fst (generate exact_rsub DynamicVizEngine_init
      (VizRequest_init ''Share'' ''pie'' [[(''category'', JStr ''a''), (''value'', JInt 3)]]
         None None None [] ''Mostly a'' ''2025-01-01T00:00:00'')) =
   fst (generate exact_rsub
      (snd (generate exact_rsub DynamicVizEngine_init
        (VizRequest_init ''Share'' ''pie'' [[(''category'', JStr ''a''), (''value'', JInt 3)]]
           None None None [] ''Mostly a'' ''2025-01-01T00:00:00'')))
      (VizRequest_init ''Share'' ''pie'' [[(''category'', JStr ''a''), (''value'', JInt 3)]]
         None None None [] ''Mostly a'' ''2025-06-30T12:00:00''))"
  using generate_deterministic
    [where ?r1.0 = "VizRequest_init ''Share'' ''pie''
          [[(''category'', JStr ''a''), (''value'', JInt 3)]]
          None None None [] ''Mostly a'' ''2025-01-01T00:00:00''"
       and ?r2.0 = "VizRequest_init ''Share'' ''pie''
          [[(''category'', JStr ''a''), (''value'', JInt 3)]]
          None None None [] ''Mostly a'' ''2025-06-30T12:00:00''"
       and f = exact_rsub and ?e1.0 = DynamicVizEngine_init
       and ?e2.0 = "snd (generate exact_rsub DynamicVizEngine_init
        (VizRequest_init ''Share'' ''pie'' [[(''category'', JStr ''a''), (''value'', JInt 3)]]
           None None None [] ''Mostly a'' ''2025-01-01T00:00:00''))"]
  by (simp add: VizRequest_init_def)

end
